theory Spec2Isabelle
  imports Main "HOL-Library.Word"
begin

section \<open>qemu-vsock-send: one request, one reply over a VSOCK stream socket\<close>

text \<open>
  The embedding follows \<^verbatim>\<open>src/tools/qemu-vsock-send.cpp\<close>. The program is a straight
  line of four system calls around a string-building loop. What the kernel and the peer
  answer is not decided by the program, so it is a parameter of the model (the record
  \<open>world\<close>), and the calls the program makes are collected in order in the field
  \<open>calls\<close> of the result.
\<close>

subsection \<open>C strings and the C types involved\<close>

text \<open>Bytes are \<open>char\<close>; a C string ends at its first NUL byte.\<close>

definition NUL :: char where
  "NUL = CHR 0x00"

definition newline :: char where
  "newline = CHR 0x0A"

definition c_str :: "char list \<Rightarrow> string" where
  "c_str mem = takeWhile (\<lambda>c. c \<noteq> NUL) mem"

text \<open>
  \<^verbatim>\<open>ssize_t\<close> and \<^verbatim>\<open>size_t\<close> are 64 bits wide (LP64 Linux, the only platform with
  \<^verbatim>\<open>linux/vm_sockets.h\<close>). A word carries the bits; \<open>sint\<close> reads it as
  \<^verbatim>\<open>ssize_t\<close>, \<open>unat\<close> as \<^verbatim>\<open>size_t\<close>.
\<close>

type_synonym ssize_t = "64 word"
type_synonym size_t = "64 word"

definition size_t_of_ssize_t :: "ssize_t \<Rightarrow> size_t" where
  "size_t_of_ssize_t r = word_of_int (sint r)"

text \<open>The cast \<^verbatim>\<open>(int)msg_len\<close>: the low 32 bits, read as two's complement.\<close>

definition int_of_size_t :: "size_t \<Rightarrow> int" where
  "int_of_size_t n = sint (ucast n :: 32 word)"

definition INT_MAX :: int where
  "INT_MAX = 2147483647"

text \<open>
  Addition on \<^verbatim>\<open>int\<close>. Signed overflow is undefined in C++; the model takes the
  two's complement result, which is what the hardware gives.
\<close>

definition int_wrap :: "int \<Rightarrow> int" where
  "int_wrap x = (x + 2147483648) mod 4294967296 - 2147483648"

text \<open>
  Constants of the system headers (\<^verbatim>\<open>sys/socket.h\<close>, \<^verbatim>\<open>linux/vm_sockets.h\<close>,
  \<^verbatim>\<open>stdlib.h\<close>), with their Linux values.
\<close>

definition AF_VSOCK :: nat where
  "AF_VSOCK = 40"

definition SOCK_STREAM :: nat where
  "SOCK_STREAM = 1"

definition VMADDR_CID_HOST :: nat where
  "VMADDR_CID_HOST = 2"

definition EXIT_SUCCESS :: int where
  "EXIT_SUCCESS = 0"

definition EXIT_FAILURE :: int where
  "EXIT_FAILURE = 1"

record sockaddr_vm =
  svm_family :: nat
  svm_reserved1 :: nat
  svm_port :: nat
  svm_cid :: nat
  svm_zero :: nat

subsection \<open>The outside world and what a run leaves behind\<close>

text \<open>
  The send call (line 48) passes the flags 0 and the program leaves \<^verbatim>\<open>SIGPIPE\<close> at its
  default action. So the call either returns (a count, or \<open>-1\<close>), or, when the peer has
  shut the connection down, the kernel raises \<^verbatim>\<open>SIGPIPE\<close> and the process ends inside
  the call. This is the one signal that the program's own calls on the socket raise;
  signals sent to the process from outside are not part of the model.
\<close>

datatype send_event = Send_sigpipe | Send_ret ssize_t

text \<open>
  One receive call either fails (the kernel returns \<open>-1\<close>) or delivers the bytes the
  peer has made available.
\<close>

datatype recv_event = Recv_fail | Recv_ok "char list"

record world =
  environ :: "string list"
  socket_ret :: int
  connect_ret :: int
  send_ev :: send_event
  recv_ev :: recv_event

datatype syscall =
    Socket nat nat nat
  | Connect int sockaddr_vm
  | Send int string nat
  | Recv int nat nat

datatype fault = Null_string | Out_of_bounds

datatype signal = SIGPIPE

text \<open>
  A run ends by returning from \<open>main\<close>, by an uncaught \<^verbatim>\<open>std::runtime_error\<close>
  (the process is terminated), by a signal that kills the process, or in undefined
  behaviour.
\<close>

datatype status = Exited int | Terminated string | Killed signal | Undefined fault

record run =
  status :: status
  stdout :: string
  stderr :: string
  calls :: "syscall list"

subsection \<open>Library calls\<close>

text \<open>
  \<^verbatim>\<open>snprintf(nullptr, 0, "%s ", arg)\<close>: the number of characters the formatted text
  has, or a negative value when that number does not fit an \<^verbatim>\<open>int\<close>.
\<close>

definition snprintf_s_space :: "char list \<Rightarrow> int" where
  "snprintf_s_space arg =
     (let n = int (length (c_str arg)) + 1 in if n \<le> INT_MAX then n else - 1)"

text \<open>\<^verbatim>\<open>m3_string_format("%s ", arg)\<close>, lines 8 to 20.\<close>

definition m3_string_format :: "char list \<Rightarrow> string + string" where
  "m3_string_format arg =
     (let size_s = int_wrap (snprintf_s_space arg + 1) in
      if size_s \<le> 0 then Inl ''Error during formatting.''
      else let size = nat size_s;
               buf = take (size - 1) (c_str arg @ '' '') @ [NUL]
           in Inr (take (size - 1) buf))"

text \<open>
  An exception that nothing catches ends in \<^verbatim>\<open>std::terminate\<close>. Its handler writes the
  type and the message of the exception to the error stream before it aborts; the wording
  is that of libstdc++.
\<close>

definition terminate_message :: "string \<Rightarrow> string" where
  "terminate_message e =
     ''terminate called after throwing an instance of '' @
     [CHR 0x27] @ ''std::runtime_error'' @ [CHR 0x27, newline] @
     ''  what():  '' @ e @ [newline]"

text \<open>
  \<^verbatim>\<open>recv(s, &buf, len, 0)\<close>: on success the kernel copies at most \<open>len\<close> bytes to the
  start of the buffer and returns their number. A copy longer than the buffer would write
  outside it.
\<close>

definition recv_call :: "recv_event \<Rightarrow> nat \<Rightarrow> char list \<Rightarrow> (ssize_t \<times> char list) option" where
  "recv_call ev len buf =
     (case ev of
        Recv_fail \<Rightarrow> Some (- 1, buf)
      | Recv_ok d \<Rightarrow>
          (let got = take len d in
           if length got \<le> length buf
           then Some (of_nat (length got), got @ drop (length got) buf)
           else None))"

text \<open>
  Reading a string argument of \<^verbatim>\<open>printf\<close> from memory: at most \<open>n\<close> bytes, up to the
  first NUL byte. \<open>None\<close> is a read past the end of the object.
\<close>

fun c_read :: "nat \<Rightarrow> char list \<Rightarrow> string option" where
  "c_read 0 mem = Some []"
| "c_read (Suc n) [] = None"
| "c_read (Suc n) (c # mem) =
     (if c = NUL then Some [] else map_option ((#) c) (c_read n mem))"

text \<open>
  \<^verbatim>\<open>%.*s\<close> with precision \<open>p\<close>: a negative precision counts as no precision, and
  the read only stops at a NUL byte.
\<close>

definition printf_prec_s :: "int \<Rightarrow> char list \<Rightarrow> string option" where
  "printf_prec_s p mem =
     (if p < 0 then c_read (Suc (length mem)) mem else c_read (nat p) mem)"

subsection \<open>The program\<close>

text \<open>Lines 42 to 45: the loop over \<^verbatim>\<open>argv[1]\<close> .. \<^verbatim>\<open>argv[argc - 1]\<close>.\<close>

fun build_loop :: "char list list \<Rightarrow> string \<Rightarrow> string + string" where
  "build_loop [] out = Inr out"
| "build_loop (a # as) out =
     (case m3_string_format a of
        Inl e \<Rightarrow> Inl e
      | Inr s \<Rightarrow> build_loop as (out @ s))"

text \<open>Lines 42 to 46: the request, from the whole \<open>argv\<close>.\<close>

definition build_request :: "char list list \<Rightarrow> string + string" where
  "build_request argv =
     (case build_loop (drop 1 argv) [] of
        Inl e \<Rightarrow> Inl e
      | Inr out \<Rightarrow> Inr (out @ [newline]))"

text \<open>Lines 34 to 38: the address, zeroed and then filled in.\<close>

definition endpoint :: sockaddr_vm where
  "endpoint =
     \<lparr>svm_family = 0, svm_reserved1 = 0, svm_port = 0, svm_cid = 0, svm_zero = 0\<rparr>
     \<lparr>svm_family := AF_VSOCK, svm_port := 9999, svm_cid := VMADDR_CID_HOST\<rparr>"

text \<open>The two arrays: \<^verbatim>\<open>buffer\<close> (line 31, only its size is used) and \<^verbatim>\<open>buf\<close>.\<close>

definition sizeof_buffer :: nat where
  "sizeof_buffer = 4096"

definition buf_init :: "char list" where
  "buf_init = replicate 4096 NUL"

text \<open>The value of \<^verbatim>\<open>msg_len\<close> after line 51, when the receive call stays in bounds.\<close>

definition msg_len :: "world \<Rightarrow> size_t option" where
  "msg_len w = map_option (size_t_of_ssize_t \<circ> fst) (recv_call (recv_ev w) 4096 buf_init)"

text \<open>Lines 52 to 57: what is printed and returned, from \<^verbatim>\<open>msg_len\<close> and \<^verbatim>\<open>buf\<close>.\<close>

definition respond :: "size_t \<Rightarrow> char list \<Rightarrow> status \<times> string" where
  "respond len buf =
     (if unat len < sizeof_buffer * 1
      then (case printf_prec_s (int_of_size_t len) buf of
              None \<Rightarrow> (Undefined Out_of_bounds, [])
            | Some txt \<Rightarrow> (Exited EXIT_SUCCESS, ''Value: '' @ txt))
      else (Exited EXIT_FAILURE, []))"

text \<open>
  Lines 22 to 60. The result of \<^verbatim>\<open>connect\<close> and the value that \<^verbatim>\<open>send\<close> returns
  are not looked at; a \<^verbatim>\<open>send\<close> that raises \<^verbatim>\<open>SIGPIPE\<close> ends the run before the
  receive call.
\<close>

definition main :: "char list list \<Rightarrow> world \<Rightarrow> run" where
  "main argv w =
     (if length argv < 2
      then (case argv of
              [] \<Rightarrow> \<lparr>status = Undefined Null_string, stdout = [], stderr = [], calls = []\<rparr>
            | prog # _ \<Rightarrow>
                \<lparr>status = Exited 1, stdout = [],
                 stderr = ''syntax: '' @ c_str prog @ '' key(s)'' @ [newline],
                 calls = []\<rparr>)
      else
        (let s = socket_ret w;
             calls1 = [Socket AF_VSOCK SOCK_STREAM 0, Connect s endpoint]
         in case build_request argv of
              Inl e \<Rightarrow>
                \<lparr>status = Terminated e, stdout = [], stderr = terminate_message e,
                 calls = calls1\<rparr>
            | Inr out \<Rightarrow>
                (let calls2 = calls1 @ [Send s out 0] in
                 case send_ev w of
                   Send_sigpipe \<Rightarrow>
                     \<lparr>status = Killed SIGPIPE, stdout = [], stderr = [], calls = calls2\<rparr>
                 | Send_ret _ \<Rightarrow>
                     (case recv_call (recv_ev w) 4096 buf_init of
                        None \<Rightarrow>
                          \<lparr>status = Undefined Out_of_bounds, stdout = [], stderr = [],
                           calls = calls2 @ [Recv s 4096 0]\<rparr>
                      | Some (r, buf) \<Rightarrow>
                          (let (st, txt) = respond (size_t_of_ssize_t r) buf in
                           \<lparr>status = st, stdout = txt, stderr = [],
                            calls = calls2 @ [Recv s 4096 0]\<rparr>)))))"

subsection \<open>Reading a run\<close>

fun is_data_call :: "syscall \<Rightarrow> bool" where
  "is_data_call (Send _ _ _) = True"
| "is_data_call (Recv _ _ _) = True"
| "is_data_call _ = False"

fun connect_addrs :: "syscall list \<Rightarrow> sockaddr_vm list" where
  "connect_addrs [] = []"
| "connect_addrs (Connect _ a # cs) = a # connect_addrs cs"
| "connect_addrs (_ # cs) = connect_addrs cs"

text \<open>
  An argument the program can format: its text and the space after it must leave room in
  an \<^verbatim>\<open>int\<close> for the terminator that \<open>m3_string_format\<close> adds to the count.
\<close>

definition arg_ok :: "char list \<Rightarrow> bool" where
  "arg_ok a \<longleftrightarrow> length (c_str a) < 2147483646"

text \<open>The spec's words for the request: the tokens joined by single spaces.\<close>

fun join_spec :: "string \<Rightarrow> string list \<Rightarrow> string" where
  "join_spec sep [] = []"
| "join_spec sep [t] = t"
| "join_spec sep (t # u # ts) = t @ sep @ join_spec sep (u # ts)"

definition request_spec :: "string list \<Rightarrow> string" where
  "request_spec T = join_spec '' '' T @ [newline]"

subsection \<open>Sample worlds\<close>

text \<open>
  A peer that accepts the connection and answers with the bytes \<open>d\<close>; a host where
  nothing listens on the port: the connection is refused and the calls on the unconnected
  socket fail; and a peer that accepts the connection and shuts it down before the request
  is sent.
\<close>

definition world_reply :: "char list \<Rightarrow> world" where
  "world_reply d =
     \<lparr>environ = [], socket_ret = 3, connect_ret = 0, send_ev = Send_ret 8,
      recv_ev = Recv_ok d\<rparr>"

definition world_no_listener :: world where
  "world_no_listener =
     \<lparr>environ = [], socket_ret = 3, connect_ret = - 1, send_ev = Send_ret (- 1),
      recv_ev = Recv_fail\<rparr>"

definition world_peer_closed :: world where
  "world_peer_closed =
     \<lparr>environ = [], socket_ret = 3, connect_ret = 0, send_ev = Send_sigpipe,
      recv_ev = Recv_fail\<rparr>"

section \<open>Properties\<close>

subsection \<open>Strings\<close>

lemma c_str_no_NUL: "NUL \<notin> set t \<Longrightarrow> c_str t = t"
  unfolding c_str_def by (rule takeWhile_eq_all_conv [THEN iffD2]) auto

lemma c_str_padding: "c_str (replicate k NUL) = []"
  by (cases k) (simp_all add: c_str_def)

lemma c_str_replicate_NUL: "c_str (d @ replicate k NUL) = c_str d"
proof (induction d)
  case Nil
  show ?case by (simp add: c_str_padding) (simp add: c_str_def)
next
  case (Cons c d)
  then show ?case by (simp add: c_str_def)
qed

lemma c_read_take: "n \<le> length mem \<Longrightarrow> c_read n mem = Some (c_str (take n mem))"
proof (induction n mem rule: c_read.induct)
  case (1 mem) show ?case by (simp add: c_str_def)
next
  case (2 n) then show ?case by simp
next
  case (3 n c mem) then show ?case by (simp add: c_str_def)
qed

lemma concat_space_join:
  "T \<noteq> [] \<Longrightarrow> concat (map (\<lambda>t. t @ '' '') T) = join_spec '' '' T @ '' ''"
  by (induction "'' ''" T rule: join_spec.induct) simp_all

subsection \<open>Integers\<close>

lemma int_wrap_id: "- 2147483648 \<le> x \<Longrightarrow> x < 2147483648 \<Longrightarrow> int_wrap x = x"
  by (simp add: int_wrap_def)

lemma size_t_of_ssize_t_id: "size_t_of_ssize_t r = r"
  by (simp add: size_t_of_ssize_t_def)

lemma unat_stored: "n \<le> 4096 \<Longrightarrow> unat (of_nat n :: 64 word) = n"
  by (simp add: unat_of_nat)

lemma sint_stored:
  fixes r :: "64 word"
  assumes "unat r \<le> 4096"
  shows "sint r = int (unat r)"
proof -
  have e: "uint r = int (unat r)" by (rule uint_nat)
  with assms have "uint r \<le> 4096" by linarith
  then have hi: "uint r < 2 ^ 63" by simp
  have "(0::int) \<le> uint r" by simp
  then have "- 9223372036854775808 \<le> uint r" by linarith
  then have lo: "- (2 ^ 63) \<le> uint r" by simp
  have "signed_take_bit 63 (uint r) = uint r"
    using lo hi by (rule signed_take_bit_int_eq_self)
  moreover have "sint r = signed_take_bit 63 (uint r)"
    by (simp add: sint_uint)
  ultimately show ?thesis using e by linarith
qed

lemma negative_is_large: "sint (r :: 64 word) < 0 \<Longrightarrow> 4096 \<le> unat r"
  using sint_stored [of r] by (cases "unat r < 4096") simp_all

lemma int_of_size_t_small:
  assumes "n < 4096"
  shows "int_of_size_t (of_nat n) = int n"
proof -
  have u: "unat (of_nat n :: 64 word) = n" using assms by (simp add: unat_of_nat)
  have e: "uint (of_nat n :: 64 word) = int n" unfolding uint_nat u ..
  have hi: "int n < 2 ^ 31" using assms by simp
  have lo: "- (2 ^ 31) \<le> int n" by simp
  have "signed_take_bit 31 (int n) = int n"
    using lo hi by (rule signed_take_bit_int_eq_self)
  then show ?thesis
    unfolding int_of_size_t_def by (simp add: signed_ucast_eq e)
qed

lemma unat_minus_one_size_t: "unat (size_t_of_ssize_t (- 1)) = 18446744073709551615"
  by (simp add: size_t_of_ssize_t_def unsigned_minus_1_eq_mask mask_eq_exp_minus_1)

subsection \<open>Formatting and the request\<close>

lemma m3_string_format_ok:
  assumes "arg_ok a"
  shows "m3_string_format a = Inr (c_str a @ '' '')"
proof -
  let ?n = "int (length (c_str a))"
  from assms have n: "?n < 2147483646" by (simp add: arg_ok_def)
  then have s: "snprintf_s_space a = ?n + 1"
    by (simp add: snprintf_s_space_def INT_MAX_def Let_def)
  have w: "int_wrap (snprintf_s_space a + 1) = ?n + 2"
    using n by (simp add: s int_wrap_id)
  have k: "nat (?n + 2) - 1 = length (c_str a @ '' '')"
    by simp
  show ?thesis
    unfolding m3_string_format_def w Let_def k by simp
qed

text \<open>The exception is a real branch: an argument of \<open>2^31 - 2\<close> bytes or more raises it.\<close>

lemma m3_string_format_too_long:
  assumes "\<not> arg_ok a"
  shows "m3_string_format a = Inl ''Error during formatting.''"
proof -
  let ?n = "int (length (c_str a))"
  from assms have n: "2147483646 \<le> ?n" by (simp add: arg_ok_def)
  show ?thesis
  proof (cases "?n = 2147483646")
    case True
    then have s: "snprintf_s_space a = 2147483647"
      by (simp add: snprintf_s_space_def INT_MAX_def Let_def)
    show ?thesis by (simp add: m3_string_format_def s int_wrap_def)
  next
    case False
    with n have s: "snprintf_s_space a = - 1"
      by (simp add: snprintf_s_space_def INT_MAX_def Let_def)
    show ?thesis by (simp add: m3_string_format_def s int_wrap_def)
  qed
qed

lemma build_loop_ok:
  "\<forall>a\<in>set as. arg_ok a \<Longrightarrow>
   build_loop as out = Inr (out @ concat (map (\<lambda>a. c_str a @ '' '') as))"
  by (induction as arbitrary: out) (simp_all add: m3_string_format_ok)

lemma build_request_ok:
  "\<forall>a\<in>set (drop 1 argv). arg_ok a \<Longrightarrow>
   build_request argv = Inr (concat (map (\<lambda>a. c_str a @ '' '') (drop 1 argv)) @ [newline])"
  by (simp add: build_request_def build_loop_ok)

subsection \<open>Receiving and answering\<close>

lemma recv_call_fail: "recv_call Recv_fail 4096 buf_init = Some (- 1, buf_init)"
  by (simp add: recv_call_def)

lemma recv_call_ok:
  "recv_call (Recv_ok d) 4096 buf_init =
     Some (of_nat (min (length d) 4096),
           take 4096 d @ replicate (4096 - min (length d) 4096) NUL)"
  by (simp add: recv_call_def buf_init_def Let_def)

lemma respond_large: "4096 \<le> unat len \<Longrightarrow> respond len buf = (Exited 1, [])"
  by (simp add: respond_def sizeof_buffer_def EXIT_FAILURE_def)

lemma respond_small:
  assumes "n < 4096" and "n \<le> length buf"
  shows "respond (of_nat n) buf = (Exited 0, ''Value: '' @ c_str (take n buf))"
proof -
  have u: "unat (of_nat n :: 64 word) = n" using assms(1) by (simp add: unat_stored)
  have p: "printf_prec_s (int_of_size_t (of_nat n)) buf = Some (c_str (take n buf))"
    using assms by (simp add: printf_prec_s_def int_of_size_t_small c_read_take)
  show ?thesis
    unfolding respond_def u p using assms(1)
    by (simp add: sizeof_buffer_def EXIT_SUCCESS_def)
qed

lemma recv_call_in_bounds:
  "\<exists>r buf. recv_call ev 4096 buf_init = Some (r, buf) \<and> length buf = 4096 \<and> sint r \<le> 4096"
proof (cases ev)
  case Recv_fail
  show ?thesis unfolding Recv_fail recv_call_fail by (simp add: buf_init_def)
next
  case (Recv_ok d)
  have u: "unat (of_nat (min (length d) 4096) :: 64 word) = min (length d) 4096"
    by (rule unat_stored) simp
  have "sint (of_nat (min (length d) 4096) :: 64 word) = int (min (length d) 4096)"
    using sint_stored [of "of_nat (min (length d) 4096)"] unfolding u by simp
  then have "sint (of_nat (min (length d) 4096) :: 64 word) \<le> 4096" by simp
  then show ?thesis unfolding Recv_ok recv_call_ok by simp
qed

subsection \<open>Whole runs\<close>

lemma main_usage:
  "main [prog] w =
     \<lparr>status = Exited 1, stdout = [],
      stderr = ''syntax: '' @ c_str prog @ '' key(s)'' @ [newline], calls = []\<rparr>"
  by (simp add: main_def)

lemma main_recv_fail:
  assumes "2 \<le> length argv" and "\<forall>a\<in>set (drop 1 argv). arg_ok a"
    and "send_ev w = Send_ret k" and "recv_ev w = Recv_fail"
  shows "main argv w =
     \<lparr>status = Exited 1, stdout = [], stderr = [],
      calls = [Socket AF_VSOCK SOCK_STREAM 0, Connect (socket_ret w) endpoint,
               Send (socket_ret w)
                 (concat (map (\<lambda>a. c_str a @ '' '') (drop 1 argv)) @ [newline]) 0,
               Recv (socket_ret w) 4096 0]\<rparr>"
proof -
  have l: "\<not> length argv < 2" using assms(1) by simp
  have r: "respond (- 1) buf_init = (Exited 1, [])"
    by (rule respond_large) (simp add: unsigned_minus_1_eq_mask mask_eq_exp_minus_1)
  show ?thesis
    unfolding main_def
    by (simp only: l if_False build_request_ok [OF assms(2)] assms(3,4) recv_call_fail
          size_t_of_ssize_t_id r Let_def sum.case option.case prod.case append.simps
          send_event.case)
qed

lemma main_recv_short:
  assumes "2 \<le> length argv" and "\<forall>a\<in>set (drop 1 argv). arg_ok a"
    and "send_ev w = Send_ret k" and "recv_ev w = Recv_ok d" and "length d < 4096"
  shows "main argv w =
     \<lparr>status = Exited 0, stdout = ''Value: '' @ c_str d, stderr = [],
      calls = [Socket AF_VSOCK SOCK_STREAM 0, Connect (socket_ret w) endpoint,
               Send (socket_ret w)
                 (concat (map (\<lambda>a. c_str a @ '' '') (drop 1 argv)) @ [newline]) 0,
               Recv (socket_ret w) 4096 0]\<rparr>"
proof -
  have l: "\<not> length argv < 2" using assms(1) by simp
  have m: "min (length d) 4096 = length d" using assms(5) by simp
  have t: "take 4096 d = d" using assms(5) by simp
  have "respond (of_nat (length d)) (d @ replicate (4096 - length d) NUL) =
          (Exited 0, ''Value: '' @ c_str (take (length d) (d @ replicate (4096 - length d) NUL)))"
    using assms(5) by (intro respond_small) simp_all
  then have r: "respond (of_nat (length d)) (d @ replicate (4096 - length d) NUL) =
          (Exited 0, ''Value: '' @ c_str d)"
    by simp
  show ?thesis
    unfolding main_def
    by (simp only: l if_False build_request_ok [OF assms(2)] assms(3,4) recv_call_ok m t
          size_t_of_ssize_t_id r Let_def sum.case option.case prod.case append.simps
          send_event.case)
qed

lemma main_recv_full:
  assumes "2 \<le> length argv" and "\<forall>a\<in>set (drop 1 argv). arg_ok a"
    and "send_ev w = Send_ret k" and "recv_ev w = Recv_ok d" and "4096 \<le> length d"
  shows "main argv w =
     \<lparr>status = Exited 1, stdout = [], stderr = [],
      calls = [Socket AF_VSOCK SOCK_STREAM 0, Connect (socket_ret w) endpoint,
               Send (socket_ret w)
                 (concat (map (\<lambda>a. c_str a @ '' '') (drop 1 argv)) @ [newline]) 0,
               Recv (socket_ret w) 4096 0]\<rparr>"
proof -
  have l: "\<not> length argv < 2" using assms(1) by simp
  have m: "min (length d) 4096 = 4096" using assms(5) by simp
  have r: "respond (of_nat 4096) buf = (Exited 1, [])" for buf
    by (rule respond_large) (simp add: unat_stored)
  show ?thesis
    unfolding main_def
    by (simp only: l if_False build_request_ok [OF assms(2)] assms(3,4) recv_call_ok m
          size_t_of_ssize_t_id r Let_def sum.case option.case prod.case append.simps
          send_event.case)
qed

lemma main_sigpipe:
  assumes "2 \<le> length argv" and "\<forall>a\<in>set (drop 1 argv). arg_ok a"
    and "send_ev w = Send_sigpipe"
  shows "main argv w =
     \<lparr>status = Killed SIGPIPE, stdout = [], stderr = [],
      calls = [Socket AF_VSOCK SOCK_STREAM 0, Connect (socket_ret w) endpoint,
               Send (socket_ret w)
                 (concat (map (\<lambda>a. c_str a @ '' '') (drop 1 argv)) @ [newline]) 0]\<rparr>"
proof -
  have l: "\<not> length argv < 2" using assms(1) by simp
  show ?thesis
    unfolding main_def
    by (simp only: l if_False build_request_ok [OF assms(2)] assms(3) Let_def sum.case
          append.simps send_event.case)
qed

lemma main_after_recv:
  assumes "2 \<le> length argv" and "\<forall>a\<in>set (drop 1 argv). arg_ok a"
    and "send_ev w = Send_ret k"
    and "recv_call (recv_ev w) 4096 buf_init = Some (r, buf)"
  shows "main argv w =
     \<lparr>status = fst (respond (size_t_of_ssize_t r) buf),
      stdout = snd (respond (size_t_of_ssize_t r) buf), stderr = [],
      calls = [Socket AF_VSOCK SOCK_STREAM 0, Connect (socket_ret w) endpoint,
               Send (socket_ret w)
                 (concat (map (\<lambda>a. c_str a @ '' '') (drop 1 argv)) @ [newline]) 0,
               Recv (socket_ret w) 4096 0]\<rparr>"
proof -
  have l: "\<not> length argv < 2" using assms(1) by simp
  show ?thesis
    unfolding main_def
    by (simp add: l build_request_ok [OF assms(2)] assms(3,4) Let_def split: prod.split)
qed

lemma main_calls:
  assumes "2 \<le> length argv" and "\<forall>a\<in>set (drop 1 argv). arg_ok a"
    and "send_ev w = Send_ret k"
  shows "calls (main argv w) =
     [Socket AF_VSOCK SOCK_STREAM 0, Connect (socket_ret w) endpoint,
      Send (socket_ret w) (concat (map (\<lambda>a. c_str a @ '' '') (drop 1 argv)) @ [newline]) 0,
      Recv (socket_ret w) 4096 0]"
proof -
  obtain r buf where "recv_call (recv_ev w) 4096 buf_init = Some (r, buf)"
    using recv_call_in_bounds [of "recv_ev w"] by blast
  from main_after_recv [OF assms this] show ?thesis by simp
qed

lemma main_calls_to_send:
  assumes "2 \<le> length argv" and "\<forall>a\<in>set (drop 1 argv). arg_ok a"
  shows "take 3 (calls (main argv w)) =
     [Socket AF_VSOCK SOCK_STREAM 0, Connect (socket_ret w) endpoint,
      Send (socket_ret w) (concat (map (\<lambda>a. c_str a @ '' '') (drop 1 argv)) @ [newline]) 0]"
proof (cases "send_ev w")
  case Send_sigpipe
  show ?thesis by (simp add: main_sigpipe [OF assms Send_sigpipe])
next
  case (Send_ret k)
  show ?thesis by (simp add: main_calls [OF assms Send_ret])
qed

lemma main_stderr:
  assumes "2 \<le> length argv" and "\<forall>a\<in>set (drop 1 argv). arg_ok a"
  shows "stderr (main argv w) = []"
proof (cases "send_ev w")
  case Send_sigpipe
  show ?thesis by (simp add: main_sigpipe [OF assms Send_sigpipe])
next
  case (Send_ret k)
  obtain r buf where "recv_call (recv_ev w) 4096 buf_init = Some (r, buf)"
    using recv_call_in_bounds [of "recv_ev w"] by blast
  from main_after_recv [OF assms Send_ret this] show ?thesis by simp
qed

lemma main_ignores_connect: "main argv (w\<lparr>connect_ret := c\<rparr>) = main argv w"
  by (simp add: main_def Let_def split: sum.split send_event.split)

lemma main_connect:
  assumes "2 \<le> length argv"
  shows "connect_addrs (calls (main argv w)) = [endpoint]"
proof -
  have l: "\<not> length argv < 2" using assms by simp
  show ?thesis
    unfolding main_def
    by (simp add: l Let_def split: sum.split option.split prod.split send_event.split)
qed

lemma request_STATUS:
  "build_request [prog, ''STATUS''] = Inr (''STATUS '' @ [newline])"
  by (simp add: build_request_ok arg_ok_def c_str_def NUL_def)

lemma msg_len_fail: "recv_ev w = Recv_fail \<Longrightarrow> msg_len w = Some (- 1)"
  by (simp add: msg_len_def recv_call_fail size_t_of_ssize_t_id)

lemma msg_len_ok:
  "recv_ev w = Recv_ok d \<Longrightarrow> msg_len w = Some (of_nat (min (length d) 4096))"
  by (simp add: msg_len_def recv_call_ok size_t_of_ssize_t_id)

subsection \<open>Staying inside the buffer\<close>

lemma respond_in_bounds:
  assumes "length buf = 4096"
  shows "respond len buf = (Exited 1, []) \<and> 4096 \<le> unat len \<or>
         (\<exists>txt. respond len buf = (Exited 0, txt)) \<and> unat len < 4096"
proof (cases "unat len < 4096")
  case True
  have "respond (of_nat (unat len)) buf = (Exited 0, ''Value: '' @ c_str (take (unat len) buf))"
    using True assms by (intro respond_small) simp_all
  then show ?thesis using True by simp
next
  case False
  then show ?thesis by (simp add: respond_large)
qed

lemma printf_in_bounds:
  assumes "unat n < 4096" and "length b = 4096"
  shows "printf_prec_s (int_of_size_t n) b = Some (c_str (take (unat n) b))"
proof -
  have "int_of_size_t (of_nat (unat n)) = int (unat n)"
    using assms(1) by (rule int_of_size_t_small)
  then show ?thesis
    using assms by (simp add: printf_prec_s_def c_read_take)
qed

lemma main_status_cases:
  "status (main argv w) = Exited 1 \<or> status (main argv w) = Undefined Null_string \<or>
   (\<exists>e. status (main argv w) = Terminated e) \<or> status (main argv w) = Killed SIGPIPE \<or>
   (\<exists>r buf. recv_call (recv_ev w) 4096 buf_init = Some (r, buf) \<and> length buf = 4096 \<and>
      status (main argv w) = fst (respond (size_t_of_ssize_t r) buf))"
proof -
  obtain r buf where rb: "recv_call (recv_ev w) 4096 buf_init = Some (r, buf)" "length buf = 4096"
    using recv_call_in_bounds [of "recv_ev w"] by blast
  show ?thesis
    unfolding main_def using rb
    by (simp add: Let_def split: list.split sum.split prod.split send_event.split)
qed

section \<open>The claims\<close>

text \<open>
  Claim C1, as the program has it: when the peer accepts the connection and the receive
  call (reached because the send call returned) returns fewer than 4096 bytes, the process
  exits with status 0 and prints the label \<^verbatim>\<open>Value: \<close> followed by the received bytes
  up to their first NUL byte; a reply without a NUL byte is printed whole and unchanged.
\<close>

theorem C1_round_trip:
  assumes "2 \<le> length argv" and "\<forall>a\<in>set (drop 1 argv). arg_ok a"
    and "connect_ret w = 0" and "send_ev w = Send_ret k"
    and "recv_ev w = Recv_ok d" and "length d < 4096"
  shows "status (main argv w) = Exited 0 \<and>
         stdout (main argv w) = ''Value: '' @ c_str d \<and>
         (NUL \<notin> set d \<longrightarrow> stdout (main argv w) = ''Value: '' @ d)"
  by (simp add: main_recv_short [OF assms(1,2,4,5,6)] c_str_no_NUL)

theorem C1_round_trip_witness:
  "status (main [''qemu-vsock-send'', ''STATUS''] (world_reply ''running'')) = Exited 0 \<and>
   stdout (main [''qemu-vsock-send'', ''STATUS''] (world_reply ''running'')) = ''Value: running''"
  using C1_round_trip [where argv = "[''qemu-vsock-send'', ''STATUS'']"
      and w = "world_reply ''running''" and k = 8 and d = "''running''"]
  by (simp add: world_reply_def arg_ok_def c_str_def NUL_def)

text \<open>
  The round trip is not byte for byte: \<^verbatim>\<open>%.*s\<close> stops at a NUL byte, so of the
  three-byte reply \<open>A\<close>, NUL, \<open>B\<close> only \<open>A\<close> is printed.
\<close>

theorem C1_counterexample:
  "connect_ret (world_reply [CHR ''A'', NUL, CHR ''B'']) = 0 \<and>
   length [CHR ''A'', NUL, CHR ''B''] < 4096 \<and>
   stdout (main [''qemu-vsock-send'', ''STATUS''] (world_reply [CHR ''A'', NUL, CHR ''B'']))
     = ''Value: A'' \<and>
   stdout (main [''qemu-vsock-send'', ''STATUS''] (world_reply [CHR ''A'', NUL, CHR ''B'']))
     \<noteq> ''Value: '' @ [CHR ''A'', NUL, CHR ''B'']"
proof -
  have "main [''qemu-vsock-send'', ''STATUS''] (world_reply [CHR ''A'', NUL, CHR ''B'']) =
     \<lparr>status = Exited 0, stdout = ''Value: '' @ c_str [CHR ''A'', NUL, CHR ''B''], stderr = [],
      calls = [Socket AF_VSOCK SOCK_STREAM 0,
               Connect (socket_ret (world_reply [CHR ''A'', NUL, CHR ''B''])) endpoint,
               Send (socket_ret (world_reply [CHR ''A'', NUL, CHR ''B'']))
                 (concat (map (\<lambda>a. c_str a @ '' '')
                    (drop 1 [''qemu-vsock-send'', ''STATUS''])) @ [newline]) 0,
               Recv (socket_ret (world_reply [CHR ''A'', NUL, CHR ''B''])) 4096 0]\<rparr>"
    by (rule main_recv_short [where k = 8])
      (simp_all add: world_reply_def arg_ok_def c_str_def NUL_def)
  then show ?thesis
    by (simp add: world_reply_def c_str_def NUL_def)
qed

text \<open>
  Claim C2, as the program has it: for every non-empty sequence \<open>T\<close> of tokens (C strings,
  so without NUL bytes, and short enough to format), the request that is built and handed
  to \<^verbatim>\<open>send\<close> is the tokens joined by single spaces, then one more space, then one
  newline: \<open>join(T, " ") + " \n"\<close>.
\<close>

theorem C2_request_join:
  assumes "T \<noteq> []" and "\<forall>t\<in>set T. NUL \<notin> set t \<and> length t < 2147483646"
  shows "build_request (prog # T) = Inr (join_spec '' '' T @ '' '' @ [newline]) \<and>
         calls (main (prog # T) w) ! 2 =
           Send (socket_ret w) (join_spec '' '' T @ '' '' @ [newline]) 0"
proof -
  have ok: "\<forall>a\<in>set (drop 1 (prog # T)). arg_ok a"
    using assms(2) by (simp add: arg_ok_def c_str_no_NUL)
  have len: "2 \<le> length (prog # T)"
    using assms(1) by (cases T) simp_all
  have m: "map (\<lambda>a. c_str a @ '' '') T = map (\<lambda>t. t @ '' '') T"
    using assms(2) by (simp add: c_str_no_NUL)
  have req: "concat (map (\<lambda>a. c_str a @ '' '') (drop 1 (prog # T))) @ [newline] =
      join_spec '' '' T @ '' '' @ [newline]"
    by (simp add: m concat_space_join [OF assms(1)])
  have "build_request (prog # T) = Inr (join_spec '' '' T @ '' '' @ [newline])"
    unfolding build_request_ok [OF ok] req ..
  moreover have "take 3 (calls (main (prog # T) w)) ! 2 =
      Send (socket_ret w) (join_spec '' '' T @ '' '' @ [newline]) 0"
    unfolding main_calls_to_send [OF len ok] req by simp
  then have "calls (main (prog # T) w) ! 2 =
      Send (socket_ret w) (join_spec '' '' T @ '' '' @ [newline]) 0"
    by simp
  ultimately show ?thesis ..
qed

theorem C2_request_join_witness:
  "build_request [''qemu-vsock-send'', ''GET'', ''hostname''] = Inr (''GET hostname '' @ [newline])"
  using C2_request_join [of "[''GET'', ''hostname'']" "''qemu-vsock-send''" "world_reply []"]
  by (simp add: NUL_def)

text \<open>
  Without the extra space the equation fails: for the single token \<open>STATUS\<close> the spec's
  \<open>join(T, " ") + "\n"\<close> has seven characters, the request has eight.
\<close>

theorem C2_counterexample:
  "[''STATUS''] \<noteq> [] \<and>
   build_request [''qemu-vsock-send'', ''STATUS''] \<noteq> Inr (request_spec [''STATUS''])"
  by (simp add: request_STATUS request_spec_def)

text \<open>
  Claim C3, as the program has it: when the connection is refused, the program does not
  look at the result of \<^verbatim>\<open>connect\<close>. The whole run (exit status, both output streams
  and the calls made) is the one it would have been had \<^verbatim>\<open>connect\<close> returned 0, so the
  failed connection is reported nowhere, and nothing at all is written to the error stream.
  The program goes on to call \<^verbatim>\<open>send\<close> on the same descriptor and, when that call
  returns, \<^verbatim>\<open>recv\<close>; when the receive call then fails, as it does on a socket that is
  not connected, the process prints nothing and exits with status 1.
\<close>

theorem C3_connect_refused:
  assumes "2 \<le> length argv" and "\<forall>a\<in>set (drop 1 argv). arg_ok a"
    and "connect_ret w \<noteq> 0"
  shows "main argv (w\<lparr>connect_ret := 0\<rparr>) = main argv w \<and>
         stderr (main argv w) = [] \<and>
         take 3 (calls (main argv w)) =
           [Socket AF_VSOCK SOCK_STREAM 0, Connect (socket_ret w) endpoint,
            Send (socket_ret w)
              (concat (map (\<lambda>a. c_str a @ '' '') (drop 1 argv)) @ [newline]) 0] \<and>
         (send_ev w \<noteq> Send_sigpipe \<longrightarrow>
            calls (main argv w) =
              [Socket AF_VSOCK SOCK_STREAM 0, Connect (socket_ret w) endpoint,
               Send (socket_ret w)
                 (concat (map (\<lambda>a. c_str a @ '' '') (drop 1 argv)) @ [newline]) 0,
               Recv (socket_ret w) 4096 0]) \<and>
         (send_ev w \<noteq> Send_sigpipe \<and> recv_ev w = Recv_fail \<longrightarrow>
            main argv w =
              \<lparr>status = Exited 1, stdout = [], stderr = [],
               calls = [Socket AF_VSOCK SOCK_STREAM 0, Connect (socket_ret w) endpoint,
                        Send (socket_ret w)
                          (concat (map (\<lambda>a. c_str a @ '' '') (drop 1 argv)) @ [newline]) 0,
                        Recv (socket_ret w) 4096 0]\<rparr>)"
proof -
  have a: "main argv (w\<lparr>connect_ret := 0\<rparr>) = main argv w"
    by (rule main_ignores_connect)
  have b: "stderr (main argv w) = []"
    by (rule main_stderr [OF assms(1,2)])
  note c = main_calls_to_send [OF assms(1,2), of w]
  have d: "send_ev w \<noteq> Send_sigpipe \<longrightarrow>
      calls (main argv w) =
        [Socket AF_VSOCK SOCK_STREAM 0, Connect (socket_ret w) endpoint,
         Send (socket_ret w)
           (concat (map (\<lambda>a. c_str a @ '' '') (drop 1 argv)) @ [newline]) 0,
         Recv (socket_ret w) 4096 0]"
    using main_calls [OF assms(1,2)] by (cases "send_ev w") simp_all
  have e: "send_ev w \<noteq> Send_sigpipe \<and> recv_ev w = Recv_fail \<longrightarrow>
      main argv w =
        \<lparr>status = Exited 1, stdout = [], stderr = [],
         calls = [Socket AF_VSOCK SOCK_STREAM 0, Connect (socket_ret w) endpoint,
                  Send (socket_ret w)
                    (concat (map (\<lambda>a. c_str a @ '' '') (drop 1 argv)) @ [newline]) 0,
                  Recv (socket_ret w) 4096 0]\<rparr>"
    using main_recv_fail [OF assms(1,2)] by (cases "send_ev w") simp_all
  from a b c d e show ?thesis by blast
qed

theorem C3_connect_refused_witness:
  "connect_ret world_no_listener \<noteq> 0 \<and>
   send_ev world_no_listener \<noteq> Send_sigpipe \<and> recv_ev world_no_listener = Recv_fail \<and>
   main [''qemu-vsock-send'', ''STATUS''] world_no_listener =
     \<lparr>status = Exited 1, stdout = [], stderr = [],
      calls = [Socket 40 1 0, Connect 3 endpoint, Send 3 (''STATUS '' @ [newline]) 0,
               Recv 3 4096 0]\<rparr>"
  using C3_connect_refused [of "[''qemu-vsock-send'', ''STATUS'']" world_no_listener]
  by (simp add: world_no_listener_def arg_ok_def c_str_def NUL_def AF_VSOCK_def
        SOCK_STREAM_def)

text \<open>
  A run with a refused connection in which both data calls are made all the same.
\<close>

theorem C3_counterexample:
  "connect_ret world_no_listener \<noteq> 0 \<and>
   filter is_data_call (calls (main [''qemu-vsock-send'', ''STATUS''] world_no_listener)) =
     [Send 3 (''STATUS '' @ [newline]) 0, Recv 3 4096 0]"
proof -
  have ok: "\<forall>a\<in>set (drop 1 [''qemu-vsock-send'', ''STATUS'']). arg_ok a"
    by (simp add: arg_ok_def c_str_def NUL_def)
  have "send_ev world_no_listener = Send_ret (- 1)"
    by (simp add: world_no_listener_def)
  from main_calls [OF _ ok this] show ?thesis
    by (simp add: world_no_listener_def c_str_def NUL_def)
qed

text \<open>
  Claim C4: when the receive call (reached because the send call returned) fills the
  4096-byte buffer exactly (the peer had 4096 bytes or more to deliver), \<^verbatim>\<open>msg_len\<close> is
  4096, nothing is printed to standard output and the process exits with
  \<^verbatim>\<open>EXIT_FAILURE\<close>.
\<close>

theorem C4_buffer_filled:
  assumes "2 \<le> length argv" and "\<forall>a\<in>set (drop 1 argv). arg_ok a"
    and "send_ev w = Send_ret k" and "recv_ev w = Recv_ok d" and "4096 \<le> length d"
  shows "msg_len w = Some 4096 \<and>
         status (main argv w) = Exited EXIT_FAILURE \<and> EXIT_FAILURE \<noteq> 0 \<and>
         stdout (main argv w) = []"
proof -
  have "min (length d) 4096 = 4096" using assms(5) by simp
  then have "msg_len w = Some 4096"
    by (simp add: msg_len_ok [OF assms(4)])
  then show ?thesis
    by (simp add: main_recv_full [OF assms] EXIT_FAILURE_def)
qed

theorem C4_buffer_filled_witness:
  "status (main [''qemu-vsock-send'', ''STATUS''] (world_reply (replicate 5000 CHR ''x'')))
     = Exited 1 \<and>
   stdout (main [''qemu-vsock-send'', ''STATUS''] (world_reply (replicate 5000 CHR ''x''))) = []"
  using C4_buffer_filled [where argv = "[''qemu-vsock-send'', ''STATUS'']"
      and w = "world_reply (replicate 5000 CHR ''x'')" and k = 8
      and d = "replicate 5000 CHR ''x''"]
  by (simp add: world_reply_def arg_ok_def c_str_def NUL_def EXIT_FAILURE_def)

text \<open>
  Claim C5: with only the program name on the command line, the process writes the usage
  line to the error stream and exits with status 1; it makes no system call on a socket
  and prints nothing to standard output.
\<close>

theorem C5_usage:
  "main [prog] w =
     \<lparr>status = Exited 1, stdout = [],
      stderr = ''syntax: '' @ c_str prog @ '' key(s)'' @ [newline], calls = []\<rparr>"
  by (rule main_usage)

theorem C5_usage_witness:
  "main [''qemu-vsock-send''] world_no_listener =
     \<lparr>status = Exited 1, stdout = [],
      stderr = ''syntax: qemu-vsock-send key(s)'' @ [newline], calls = []\<rparr>"
  using C5_usage [of "''qemu-vsock-send''" world_no_listener]
  by (simp add: c_str_def NUL_def)

text \<open>
  Claim C6: when the receive call (reached because the send call returned) returns a
  negative value, the conversion to \<^verbatim>\<open>size_t\<close> leaves in \<^verbatim>\<open>msg_len\<close> a count of 4096
  or more, so the run takes the failure branch: the exit status is \<^verbatim>\<open>EXIT_FAILURE\<close> and
  nothing is printed, neither to standard output nor to the error stream. There is no path
  of its own for the receive error: the whole run is the very run in which the receive
  call filled the buffer.
\<close>

theorem C6_negative_wraps:
  assumes "2 \<le> length argv" and "\<forall>a\<in>set (drop 1 argv). arg_ok a"
    and "send_ev w = Send_ret k"
    and "recv_call (recv_ev w) 4096 buf_init = Some (r, buf)" and "sint r < 0"
  shows "msg_len w = Some (size_t_of_ssize_t r) \<and>
         4096 \<le> unat (size_t_of_ssize_t r) \<and>
         status (main argv w) = Exited EXIT_FAILURE \<and> EXIT_FAILURE \<noteq> 0 \<and>
         stdout (main argv w) = [] \<and>
         stderr (main argv w) = [] \<and>
         main argv (w\<lparr>recv_ev := Recv_ok (replicate 4096 CHR ''x'')\<rparr>) = main argv w"
proof -
  let ?w' = "w\<lparr>recv_ev := Recv_ok (replicate 4096 CHR ''x'')\<rparr>"
  have big: "4096 \<le> unat (size_t_of_ssize_t r)"
    using assms(5) by (simp add: size_t_of_ssize_t_id negative_is_large)
  have m: "msg_len w = Some (size_t_of_ssize_t r)"
    by (simp add: msg_len_def assms(4))
  have run: "main argv w =
     \<lparr>status = Exited 1, stdout = [], stderr = [],
      calls = [Socket AF_VSOCK SOCK_STREAM 0, Connect (socket_ret w) endpoint,
               Send (socket_ret w)
                 (concat (map (\<lambda>a. c_str a @ '' '') (drop 1 argv)) @ [newline]) 0,
               Recv (socket_ret w) 4096 0]\<rparr>"
    using main_after_recv [OF assms(1,2,3,4)] by (simp add: respond_large [OF big])
  have "main argv ?w' =
     \<lparr>status = Exited 1, stdout = [], stderr = [],
      calls = [Socket AF_VSOCK SOCK_STREAM 0, Connect (socket_ret ?w') endpoint,
               Send (socket_ret ?w')
                 (concat (map (\<lambda>a. c_str a @ '' '') (drop 1 argv)) @ [newline]) 0,
               Recv (socket_ret ?w') 4096 0]\<rparr>"
    by (rule main_recv_full [OF assms(1,2), where k = k and d = "replicate 4096 CHR ''x''"])
      (simp_all add: assms(3))
  then have same: "main argv ?w' = main argv w"
    by (simp add: run)
  from big m same show ?thesis
    by (simp add: run EXIT_FAILURE_def)
qed

theorem C6_negative_wraps_witness:
  "sint (- 1 :: ssize_t) < 0 \<and>
   msg_len world_no_listener = Some (- 1) \<and>
   unat (size_t_of_ssize_t (- 1)) = 18446744073709551615 \<and>
   status (main [''qemu-vsock-send'', ''STATUS''] world_no_listener) = Exited 1 \<and>
   stdout (main [''qemu-vsock-send'', ''STATUS''] world_no_listener) = [] \<and>
   stderr (main [''qemu-vsock-send'', ''STATUS''] world_no_listener) = []"
  using C6_negative_wraps [where argv = "[''qemu-vsock-send'', ''STATUS'']"
      and w = world_no_listener and k = "- 1" and r = "- 1" and buf = buf_init]
    unat_minus_one_size_t
  by (simp add: world_no_listener_def recv_call_fail arg_ok_def c_str_def NUL_def
        EXIT_FAILURE_def size_t_of_ssize_t_id)

text \<open>
  Claim C7, as the program has it: for the single token \<open>STATUS\<close> the request is the
  eight-character string \<open>"STATUS \n"\<close>, with a space after the token and before the
  newline, and that is what is handed to \<^verbatim>\<open>send\<close>.
\<close>

theorem C7_request_STATUS:
  "build_request [prog, ''STATUS''] = Inr (''STATUS '' @ [newline]) \<and>
   length (''STATUS '' @ [newline]) = 8 \<and>
   calls (main [prog, ''STATUS''] w) ! 2 = Send (socket_ret w) (''STATUS '' @ [newline]) 0"
proof -
  have ok: "\<forall>a\<in>set (drop 1 [prog, ''STATUS'']). arg_ok a"
    by (simp add: arg_ok_def c_str_def NUL_def)
  have "take 3 (calls (main [prog, ''STATUS''] w)) ! 2 =
      Send (socket_ret w) (''STATUS '' @ [newline]) 0"
    by (simp add: main_calls_to_send [OF _ ok] c_str_def NUL_def)
  then have "calls (main [prog, ''STATUS''] w) ! 2 =
      Send (socket_ret w) (''STATUS '' @ [newline]) 0"
    by simp
  then show ?thesis by (simp add: request_STATUS)
qed

theorem C7_request_STATUS_witness:
  "build_request [''qemu-vsock-send'', ''STATUS''] = Inr (''STATUS '' @ [newline]) \<and>
   calls (main [''qemu-vsock-send'', ''STATUS''] (world_reply ''ok'')) ! 2 =
     Send 3 (''STATUS '' @ [newline]) 0"
  using C7_request_STATUS [of "''qemu-vsock-send''" "world_reply ''ok''"]
  by (simp add: world_reply_def)

text \<open>
  The request for \<open>STATUS\<close> does not have five characters.
\<close>

theorem C7_counterexample:
  "\<not> (build_request [''qemu-vsock-send'', ''STATUS''] = Inr (''STATUS '' @ [newline]) \<and>
      length (projr (build_request [''qemu-vsock-send'', ''STATUS''])) = 5)"
  by (simp add: request_STATUS)

text \<open>
  Claim C8: whatever the arguments and whatever the environment, a run that passes the
  argument check connects exactly once, to the address with family \<^verbatim>\<open>AF_VSOCK\<close>,
  context identifier \<^verbatim>\<open>VMADDR_CID_HOST\<close> and port 9999. The environment variables are a
  field of \<open>world\<close>, over which the statement is universal.
\<close>

theorem C8_fixed_endpoint:
  assumes "2 \<le> length argv"
  shows "connect_addrs (calls (main argv w)) =
     [\<lparr>svm_family = AF_VSOCK, svm_reserved1 = 0, svm_port = 9999,
       svm_cid = VMADDR_CID_HOST, svm_zero = 0\<rparr>]"
  using main_connect [OF assms] by (simp add: endpoint_def)

theorem C8_fixed_endpoint_witness:
  "connect_addrs (calls (main [''qemu-vsock-send'', ''STATUS'']
      \<lparr>environ = [''VSOCK_PORT=1234''], socket_ret = 3, connect_ret = 0,
       send_ev = Send_ret 8, recv_ev = Recv_ok ''ok''\<rparr>)) =
     [\<lparr>svm_family = 40, svm_reserved1 = 0, svm_port = 9999, svm_cid = 2, svm_zero = 0\<rparr>]"
  using C8_fixed_endpoint [of "[''qemu-vsock-send'', ''STATUS'']"
      "\<lparr>environ = [''VSOCK_PORT=1234''], socket_ret = 3, connect_ret = 0,
       send_ev = Send_ret 8, recv_ev = Recv_ok ''ok''\<rparr>"]
  by (simp add: AF_VSOCK_def VMADDR_CID_HOST_def)

text \<open>
  Claim C9, as the program has it: a run that passes the argument check makes one
  \<^verbatim>\<open>socket\<close>, one \<^verbatim>\<open>connect\<close> and one \<^verbatim>\<open>send\<close> call, in this order. When the
  send call returns, exactly one \<^verbatim>\<open>recv\<close> call follows and nothing after it, whether
  the run then ends in success or in failure. When the send call raises \<^verbatim>\<open>SIGPIPE\<close>
  (the peer has shut the connection down), the process is killed inside it and no receive
  call is made. There are no retries and no other calls on the socket.
\<close>

theorem C9_calls_in_order:
  assumes "2 \<le> length argv" and "\<forall>a\<in>set (drop 1 argv). arg_ok a"
  shows "calls (main argv w) =
     (case send_ev w of
        Send_sigpipe \<Rightarrow>
          [Socket AF_VSOCK SOCK_STREAM 0, Connect (socket_ret w) endpoint,
           Send (socket_ret w)
             (concat (map (\<lambda>a. c_str a @ '' '') (drop 1 argv)) @ [newline]) 0]
      | Send_ret k \<Rightarrow>
          [Socket AF_VSOCK SOCK_STREAM 0, Connect (socket_ret w) endpoint,
           Send (socket_ret w)
             (concat (map (\<lambda>a. c_str a @ '' '') (drop 1 argv)) @ [newline]) 0,
           Recv (socket_ret w) 4096 0]) \<and>
     (status (main argv w) = Killed SIGPIPE \<longleftrightarrow> send_ev w = Send_sigpipe)"
proof (cases "send_ev w")
  case Send_sigpipe
  show ?thesis by (simp add: main_sigpipe [OF assms Send_sigpipe] Send_sigpipe)
next
  case (Send_ret k)
  obtain r buf where rb: "recv_call (recv_ev w) 4096 buf_init = Some (r, buf)"
      "length buf = 4096"
    using recv_call_in_bounds [of "recv_ev w"] by blast
  have "fst (respond (size_t_of_ssize_t r) buf) \<noteq> Killed SIGPIPE"
    using respond_in_bounds [OF rb(2), of "size_t_of_ssize_t r"] by auto
  then show ?thesis
    by (simp add: main_after_recv [OF assms Send_ret rb(1)] Send_ret)
qed

theorem C9_calls_in_order_witness:
  "calls (main [''qemu-vsock-send'', ''STATUS''] world_no_listener) =
     [Socket 40 1 0, Connect 3 endpoint, Send 3 (''STATUS '' @ [newline]) 0, Recv 3 4096 0] \<and>
   status (main [''qemu-vsock-send'', ''STATUS''] world_no_listener) \<noteq> Killed SIGPIPE"
  using C9_calls_in_order [of "[''qemu-vsock-send'', ''STATUS'']" world_no_listener]
  by (simp add: world_no_listener_def arg_ok_def c_str_def NUL_def AF_VSOCK_def SOCK_STREAM_def)

text \<open>
  A run that passes the argument check and makes no receive call: the peer has accepted the
  connection and shut it down, and the send call ends the process.
\<close>

theorem C9_counterexample:
  "2 \<le> length [''qemu-vsock-send'', ''STATUS''] \<and>
   main [''qemu-vsock-send'', ''STATUS''] world_peer_closed =
     \<lparr>status = Killed SIGPIPE, stdout = [], stderr = [],
      calls = [Socket 40 1 0, Connect 3 endpoint, Send 3 (''STATUS '' @ [newline]) 0]\<rparr> \<and>
   Recv 3 4096 0 \<notin> set (calls (main [''qemu-vsock-send'', ''STATUS''] world_peer_closed))"
proof -
  have ok: "\<forall>a\<in>set (drop 1 [''qemu-vsock-send'', ''STATUS'']). arg_ok a"
    by (simp add: arg_ok_def c_str_def NUL_def)
  have "send_ev world_peer_closed = Send_sigpipe"
    by (simp add: world_peer_closed_def)
  from main_sigpipe [OF _ ok this] show ?thesis
    by (simp add: world_peer_closed_def c_str_def NUL_def AF_VSOCK_def SOCK_STREAM_def)
qed

text \<open>
  Claim C10: the accesses to the receive buffer stay in bounds. The buffer has 4096 bytes;
  the receive call stores inside it and returns at most 4096; no run ends in an
  out-of-bounds access; a run that exits with status 0 had \<^verbatim>\<open>msg_len\<close> below 4096, and
  with such a precision \<^verbatim>\<open>printf\<close> reads inside the buffer; on the failure branch
  the outcome does not depend on the buffer's contents.
\<close>

theorem C10_in_bounds:
  "length buf_init = 4096 \<and>
   (\<exists>r buf. recv_call (recv_ev w) 4096 buf_init = Some (r, buf) \<and>
             length buf = 4096 \<and> sint r \<le> 4096) \<and>
   status (main argv w) \<noteq> Undefined Out_of_bounds \<and>
   (status (main argv w) = Exited 0 \<longrightarrow> (\<exists>n. msg_len w = Some n \<and> unat n < 4096)) \<and>
   (unat n < 4096 \<longrightarrow> length b = 4096 \<longrightarrow> printf_prec_s (int_of_size_t n) b \<noteq> None) \<and>
   (4096 \<le> unat n \<longrightarrow> respond n b = respond n b')"
proof -
  have a: "length buf_init = 4096" by (simp add: buf_init_def)
  have c: "status (main argv w) \<noteq> Undefined Out_of_bounds"
  proof
    assume s: "status (main argv w) = Undefined Out_of_bounds"
    with main_status_cases [of argv w]
    obtain r buf where rb: "length buf = 4096"
        "fst (respond (size_t_of_ssize_t r) buf) = Undefined Out_of_bounds"
      by auto
    from respond_in_bounds [OF rb(1), of "size_t_of_ssize_t r"] rb(2)
    show False by auto
  qed
  have d: "status (main argv w) = Exited 0 \<longrightarrow> (\<exists>n. msg_len w = Some n \<and> unat n < 4096)"
  proof
    assume s: "status (main argv w) = Exited 0"
    with main_status_cases [of argv w]
    obtain r buf where rb: "recv_call (recv_ev w) 4096 buf_init = Some (r, buf)"
        "length buf = 4096" "fst (respond (size_t_of_ssize_t r) buf) = Exited 0"
      by auto
    from respond_in_bounds [OF rb(2), of "size_t_of_ssize_t r"] rb(3)
    have "unat (size_t_of_ssize_t r) < 4096" by auto
    moreover have "msg_len w = Some (size_t_of_ssize_t r)"
      by (simp add: msg_len_def rb(1))
    ultimately show "\<exists>n. msg_len w = Some n \<and> unat n < 4096" by simp
  qed
  have e: "unat n < 4096 \<longrightarrow> length b = 4096 \<longrightarrow> printf_prec_s (int_of_size_t n) b \<noteq> None"
    by (simp add: printf_in_bounds)
  have f: "4096 \<le> unat n \<longrightarrow> respond n b = respond n b'"
    by (simp add: respond_large)
  show ?thesis
    using a recv_call_in_bounds [of "recv_ev w"] c d e f by blast
qed

theorem C10_in_bounds_witness:
  "status (main [''qemu-vsock-send'', ''STATUS''] (world_reply ''ok'')) = Exited 0 \<and>
   msg_len (world_reply ''ok'') = Some 2 \<and> unat (2 :: size_t) < 4096 \<and>
   length buf_init = 4096 \<and> printf_prec_s (int_of_size_t 2) buf_init \<noteq> None \<and>
   4096 \<le> unat (4096 :: size_t) \<and> respond 4096 buf_init = respond 4096 []"
proof -
  have ok: "\<forall>a\<in>set (drop 1 [''qemu-vsock-send'', ''STATUS'']). arg_ok a"
    by (simp add: arg_ok_def c_str_def NUL_def)
  have s: "status (main [''qemu-vsock-send'', ''STATUS''] (world_reply ''ok'')) = Exited 0"
    by (simp add: main_recv_short [OF _ ok, where k = 8 and d = "''ok''"] world_reply_def)
  have m: "msg_len (world_reply ''ok'') = Some 2"
    by (simp add: msg_len_ok [of _ "''ok''"] world_reply_def)
  show ?thesis
    using s m
      C10_in_bounds [where w = "world_reply ''ok''" and argv = "[''qemu-vsock-send'', ''STATUS'']"
        and n = 2 and b = buf_init]
      C10_in_bounds [where w = "world_reply ''ok''" and argv = "[''qemu-vsock-send'', ''STATUS'']"
        and n = 4096 and b = buf_init and b' = "[]"]
    by simp
qed

end
